theory Spec2Isabelle
  imports Main
begin

section \<open>Data model\<close>

text \<open>
  The dataclass \<^verbatim>\<open>Task\<close> of both \<^verbatim>\<open>todo_app.py\<close> and \<^verbatim>\<open>app.py\<close>. The field
  \<^verbatim>\<open>id\<close> is called \<open>task_id\<close> here, since \<open>id\<close> is the identity function of HOL.
  Python integers are unbounded, hence \<open>int\<close>. Equality of records is equality of all
  fields, which is the \<^verbatim>\<open>__eq__\<close> a dataclass generates.
\<close>

record Task =
  task_id :: int
  title :: string
  description :: string
  category :: string
  created_at :: string
  completed :: bool

definition CATEGORIES :: "string list" where
  "CATEGORIES = [''Work'', ''Personal'', ''Shopping'', ''Health'', ''Other'']"

subsection \<open>JSON values and the backing file\<close>

text \<open>
  What \<^verbatim>\<open>json.load\<close> returns: \<^verbatim>\<open>None\<close>, a bool, an int, a str, a list or a dict
  with string keys. A dict is an association list in key order; the dicts of a parsed
  document have pairwise distinct keys. Floating point numbers are left out.
\<close>

datatype json =
    JNull
  | JBool bool
  | JInt int
  | JStr string
  | JList "json list"
  | JDict "(string \<times> json) list"

text \<open>
  The exceptions that the construction of the store can meet. \<^verbatim>\<open>JSONDecodeError\<close> and
  \<^verbatim>\<open>UnicodeDecodeError\<close> are subclasses of \<^verbatim>\<open>ValueError\<close>; neither is a subclass of
  the other, and \<^verbatim>\<open>ValueError\<close> itself is a subclass of neither.
\<close>

datatype py_error =
    JSONDecodeError
  | KeyError
  | TypeError
  | AttributeError
  | UnicodeDecodeError
  | ValueError
  | RecursionError
  | OSError

text \<open>
  The content of \<^verbatim>\<open>DATA_FILE\<close>. \<open>None\<close> is a file that does not exist
  (\<^verbatim>\<open>os.path.exists\<close> is false). \<open>Malformed\<close> is text that decodes and on which
  \<^verbatim>\<open>json.load\<close> raises \<^verbatim>\<open>JSONDecodeError\<close>. \<open>Unreadable e\<close> is a file on which
  \<^verbatim>\<open>open\<close> or \<^verbatim>\<open>json.load\<close> raises another exception \<open>e\<close>:
  \<^verbatim>\<open>UnicodeDecodeError\<close> for bytes that do not decode, \<^verbatim>\<open>ValueError\<close> for an integer
  literal with more digits than the conversion limit, \<^verbatim>\<open>RecursionError\<close> for nesting
  that is too deep, \<^verbatim>\<open>OSError\<close> for a path that cannot be opened for reading.
  \<open>Parsed j\<close> is text that parses to \<open>j\<close>, and it is what \<^verbatim>\<open>json.dump\<close> of \<open>j\<close>
  writes.
\<close>

datatype content = Malformed | Unreadable py_error | Parsed json

type_synonym stored = "content option"

text \<open>
  The instance of \<^verbatim>\<open>TodoApp\<close> (\<open>tasks\<close>, \<open>next_id\<close>) together with the
  content of \<^verbatim>\<open>DATA_FILE\<close>, which every method that saves overwrites.
\<close>

record state =
  tasks :: "Task list"
  next_id :: int
  data_file :: stored

subsection \<open>Python primitives used by the store\<close>

text \<open>\<^verbatim>\<open>data.get(key, default)\<close>: only a dict has the method.\<close>

fun dict_get :: "json \<Rightarrow> string \<Rightarrow> json \<Rightarrow> py_error + json" where
  "dict_get (JDict kvs) k d = Inr (case map_of kvs k of None \<Rightarrow> d | Some v \<Rightarrow> v)"
| "dict_get _ k d = Inl AttributeError"

text \<open>
  The elements a \<^verbatim>\<open>for\<close> loop sees: the items of a list, the keys of a dict, the
  characters of a str; the other values are not iterable.
\<close>

fun py_iter :: "json \<Rightarrow> py_error + json list" where
  "py_iter (JList xs) = Inr xs"
| "py_iter (JDict kvs) = Inr (map (\<lambda>kv. JStr (fst kv)) kvs)"
| "py_iter (JStr s) = Inr (map (\<lambda>c. JStr [c]) s)"
| "py_iter _ = Inl TypeError"

text \<open>
  \<^verbatim>\<open>str.isspace\<close> and \<^verbatim>\<open>str.strip()\<close>, which drops the whitespace at both
  ends. A \<^typ>\<open>char\<close> is a code point below 256; the whitespace among them is tab to
  carriage return, the four separators 28 to 31, the space, next line (133) and the
  no-break space (160).
\<close>

definition isspace :: "char \<Rightarrow> bool" where
  "isspace c \<longleftrightarrow> (of_char c :: nat) \<in> {9, 10, 11, 12, 13, 28, 29, 30, 31, 32, 133, 160}"

definition strip :: "string \<Rightarrow> string" where
  "strip s = rev (dropWhile isspace (rev (dropWhile isspace s)))"

text \<open>\<^verbatim>\<open>str(n)\<close> for an int: decimal digits, with a minus sign below zero.\<close>

fun str_nat :: "nat \<Rightarrow> string" where
  "str_nat n =
     (if n < 10 then [char_of (48 + n)]
      else str_nat (n div 10) @ [char_of (48 + n mod 10)])"

declare str_nat.simps [simp del]

definition str_int :: "int \<Rightarrow> string" where
  "str_int i = (if i < 0 then CHR ''-'' # str_nat (nat (- i)) else str_nat (nat i))"

text \<open>The truth value of an optional string: neither \<^verbatim>\<open>None\<close> nor empty.\<close>

fun truthy :: "string option \<Rightarrow> bool" where
  "truthy None = False"
| "truthy (Some v) = (v \<noteq> [])"

section \<open>Persistence\<close>

text \<open>\<^verbatim>\<open>asdict(task)\<close>: the fields in declaration order.\<close>

definition asdict :: "Task \<Rightarrow> json" where
  "asdict task = JDict
     [(''id'', JInt (task_id task)),
      (''title'', JStr (title task)),
      (''description'', JStr (description task)),
      (''category'', JStr (category task)),
      (''created_at'', JStr (created_at task)),
      (''completed'', JBool (completed task))]"

text \<open>
  \<^verbatim>\<open>save_to_file\<close>, the same in both files: the document \<^verbatim>\<open>{next_id, tasks}\<close>
  replaces the content of the file. A failing write is not modelled.
\<close>

definition save_to_file :: "state \<Rightarrow> state" where
  "save_to_file s =
     (let data = JDict [(''next_id'', JInt (next_id s)),
                        (''tasks'', JList (map asdict (tasks s)))]
      in s\<lparr>data_file := Some (Parsed data)\<rparr>)"

text \<open>
  \<^verbatim>\<open>Task(**task)\<close>. The call raises \<^verbatim>\<open>TypeError\<close> when \<open>task\<close> is not a
  mapping, when a key is not a field of the dataclass, and when a field without a default
  (all but \<^verbatim>\<open>completed\<close>) is missing. Python does not check the values against the
  annotations; a value of another type than the annotated one cannot be held by the typed
  record \<^typ>\<open>Task\<close>, and the result is then \<open>Inr None\<close>.
\<close>

definition Task_fields :: "string list" where
  "Task_fields = [''id'', ''title'', ''description'', ''category'', ''created_at'', ''completed'']"

definition Task_required :: "string list" where
  "Task_required = [''id'', ''title'', ''description'', ''category'', ''created_at'']"

definition Task_typed :: "(string \<times> json) list \<Rightarrow> Task option" where
  "Task_typed kw =
     (case (map_of kw ''id'', map_of kw ''title'', map_of kw ''description'',
            map_of kw ''category'', map_of kw ''created_at'',
            (case map_of kw ''completed'' of None \<Rightarrow> JBool False | Some v \<Rightarrow> v)) of
        (Some (JInt i), Some (JStr t), Some (JStr d), Some (JStr c), Some (JStr a), JBool b) \<Rightarrow>
          Some \<lparr>task_id = i, title = t, description = d, category = c,
                created_at = a, completed = b\<rparr>
      | _ \<Rightarrow> None)"

fun Task_init :: "json \<Rightarrow> py_error + Task option" where
  "Task_init (JDict kw) =
     (if \<exists>k \<in> set (map fst kw). k \<notin> set Task_fields then Inl TypeError
      else if \<exists>k \<in> set Task_required. k \<notin> set (map fst kw) then Inl TypeError
      else Inr (Task_typed kw))"
| "Task_init _ = Inl TypeError"

text \<open>
  The list comprehension \<^verbatim>\<open>[Task(**task) for task in ...]\<close>: the entries are built
  in order and the first exception ends the loop.
\<close>

fun build_tasks :: "json list \<Rightarrow> py_error + Task option list" where
  "build_tasks [] = Inr []"
| "build_tasks (j # js) =
     (case Task_init j of
        Inl e \<Rightarrow> Inl e
      | Inr t \<Rightarrow> (case build_tasks js of Inl e \<Rightarrow> Inl e | Inr ts \<Rightarrow> Inr (t # ts)))"

text \<open>
  The outcome of constructing the store: a store, an exception that leaves the
  constructor (\<open>Crash\<close>), or a store holding values of other types than the annotated
  ones (\<open>Untyped\<close>), which this typed model does not follow further.
\<close>

datatype loaded = Ready state | Crash py_error | Untyped

text \<open>
  The body of the \<^verbatim>\<open>try\<close> block of \<^verbatim>\<open>load_from_file\<close>: the file is opened and
  parsed, \<open>next_id\<close> is read, then the tasks are built.
\<close>

definition load_body :: "content \<Rightarrow> py_error + (json \<times> Task option list)" where
  "load_body c =
     (case c of
        Malformed \<Rightarrow> Inl JSONDecodeError
      | Unreadable e \<Rightarrow> Inl e
      | Parsed data \<Rightarrow>
          (case dict_get data ''next_id'' (JInt 1) of
             Inl e \<Rightarrow> Inl e
           | Inr n \<Rightarrow>
               (case dict_get data ''tasks'' (JList []) of
                  Inl e \<Rightarrow> Inl e
                | Inr ts \<Rightarrow>
                    (case py_iter ts of
                       Inl e \<Rightarrow> Inl e
                     | Inr js \<Rightarrow>
                         (case build_tasks js of
                            Inl e \<Rightarrow> Inl e
                          | Inr built \<Rightarrow> Inr (n, built))))))"

text \<open>
  \<^verbatim>\<open>load_from_file\<close>, the same in both files. Without a file the store is left as it
  is. \<^verbatim>\<open>JSONDecodeError\<close> and \<^verbatim>\<open>KeyError\<close> are caught and reset the store; any other
  exception leaves the method.
\<close>

definition load_from_file :: "state \<Rightarrow> loaded" where
  "load_from_file s =
     (case data_file s of
        None \<Rightarrow> Ready s
      | Some c \<Rightarrow>
          (case load_body c of
             Inl e \<Rightarrow>
               (if e = JSONDecodeError \<or> e = KeyError
                then Ready (s\<lparr>tasks := [], next_id := 1\<rparr>)
                else Crash e)
           | Inr (n, built) \<Rightarrow>
               (case n of
                  JInt i \<Rightarrow>
                    (if list_all (\<lambda>t. t \<noteq> None) built
                     then Ready (s\<lparr>next_id := i, tasks := map the built\<rparr>)
                     else Untyped)
                | _ \<Rightarrow> Untyped)))"

text \<open>\<^verbatim>\<open>TodoApp.__init__\<close>: an empty store with \<open>next_id = 1\<close>, then the load.\<close>

definition TodoApp_init :: "stored \<Rightarrow> loaded" where
  "TodoApp_init f = load_from_file \<lparr>tasks = [], next_id = 1, data_file = f\<rparr>"

section \<open>The store of \<^verbatim>\<open>todo_app.py\<close> (console variant)\<close>

text \<open>
  \<^verbatim>\<open>add_task\<close>. The argument \<open>now\<close> is the text of
  \<^verbatim>\<open>datetime.now().strftime("%Y-%m-%d %H:%M:%S")\<close> at the call. The method returns
  the task it created.
\<close>

definition add_task :: "string \<Rightarrow> string \<Rightarrow> string \<Rightarrow> string \<Rightarrow> state \<Rightarrow> Task \<times> state" where
  "add_task ttl desc cat now s =
     (let task = \<lparr>task_id = next_id s, title = ttl, description = desc, category = cat,
                  created_at = now, completed = False\<rparr>;
          s1 = s\<lparr>tasks := tasks s @ [task]\<rparr>;
          s2 = s1\<lparr>next_id := next_id s1 + 1\<rparr>
      in (task, save_to_file s2))"

definition get_all_tasks :: "state \<Rightarrow> Task list" where
  "get_all_tasks s = tasks s"

definition get_tasks_by_category :: "string \<Rightarrow> state \<Rightarrow> Task list" where
  "get_tasks_by_category cat s = [task \<leftarrow> tasks s. category task = cat]"

text \<open>\<^verbatim>\<open>get_task_by_id\<close>: the loop returns at the first task whose id matches.\<close>

definition get_task_by_id :: "int \<Rightarrow> state \<Rightarrow> Task option" where
  "get_task_by_id tid s = find (\<lambda>task. task_id task = tid) (tasks s)"

text \<open>
  Assignment to a field of the task object that the scan for \<open>tid\<close> returned. Every
  slot of the list holds an object of its own (\<^verbatim>\<open>add_task\<close> and \<^verbatim>\<open>load_from_file\<close>
  create one per slot), so the assignment changes the first slot whose id is \<open>tid\<close> and
  no other.
\<close>

fun assign_found :: "int \<Rightarrow> (Task \<Rightarrow> Task) \<Rightarrow> Task list \<Rightarrow> Task list" where
  "assign_found tid f [] = []"
| "assign_found tid f (task # rest) =
     (if task_id task = tid then f task # rest else task # assign_found tid f rest)"

text \<open>
  The assignments of \<^verbatim>\<open>update_task\<close>: \<^verbatim>\<open>if title\<close>, \<^verbatim>\<open>if description is not None\<close>,
  \<^verbatim>\<open>if category\<close>.
\<close>

definition update_fields :: "string option \<Rightarrow> string option \<Rightarrow> string option \<Rightarrow> Task \<Rightarrow> Task" where
  "update_fields new_title new_desc new_cat task =
     (let t1 = (if truthy new_title then task\<lparr>title := the new_title\<rparr> else task);
          t2 = (case new_desc of None \<Rightarrow> t1 | Some d \<Rightarrow> t1\<lparr>description := d\<rparr>);
          t3 = (if truthy new_cat then t2\<lparr>category := the new_cat\<rparr> else t2)
      in t3)"

definition update_task ::
  "int \<Rightarrow> string option \<Rightarrow> string option \<Rightarrow> string option \<Rightarrow> state \<Rightarrow> bool \<times> state" where
  "update_task tid new_title new_desc new_cat s =
     (case get_task_by_id tid s of
        Some task \<Rightarrow>
          (True, save_to_file
             (s\<lparr>tasks := assign_found tid (update_fields new_title new_desc new_cat) (tasks s)\<rparr>))
      | None \<Rightarrow> (False, s))"

text \<open>
  \<^verbatim>\<open>delete_task\<close>: \<^verbatim>\<open>list.remove\<close> takes out the first element equal to the task
  found.
\<close>

definition delete_task :: "int \<Rightarrow> state \<Rightarrow> bool \<times> state" where
  "delete_task tid s =
     (case get_task_by_id tid s of
        Some task \<Rightarrow> (True, save_to_file (s\<lparr>tasks := remove1 task (tasks s)\<rparr>))
      | None \<Rightarrow> (False, s))"

definition toggle_complete :: "int \<Rightarrow> state \<Rightarrow> bool \<times> state" where
  "toggle_complete tid s =
     (case get_task_by_id tid s of
        Some task \<Rightarrow>
          (True, save_to_file
             (s\<lparr>tasks := assign_found tid (\<lambda>t. t\<lparr>completed := \<not> completed t\<rparr>) (tasks s)\<rparr>))
      | None \<Rightarrow> (False, s))"

text \<open>
  The adapter \<^verbatim>\<open>handle_add_task\<close>: \<open>line1\<close> and \<open>line2\<close> are the lines typed for
  the title and the description, \<open>cat\<close> is what \<^verbatim>\<open>select_category\<close> returns. The
  result is the last line printed and the store.
\<close>

definition handle_add_task :: "string \<Rightarrow> string \<Rightarrow> string \<Rightarrow> string \<Rightarrow> state \<Rightarrow> string \<times> state" where
  "handle_add_task line1 line2 cat now s =
     (let ttl = strip line1 in
      if ttl = [] then (''Error: Title cannot be empty.'', s)
      else
        (let desc = strip line2;
             (task, s') = add_task ttl desc cat now s
         in ([CHR 0x0A] @ ''Task #'' @ str_int (task_id task) @ '' added successfully!'', s')))"

section \<open>The store of \<^verbatim>\<open>app.py\<close> (form-based variant)\<close>

text \<open>
  The methods of this class return the message shown to the user. Where a method of this
  file has the name of one of \<^verbatim>\<open>todo_app.py\<close>, the suffix \<open>_web\<close> tells them apart.
\<close>

definition add_task_web :: "string \<Rightarrow> string \<Rightarrow> string \<Rightarrow> string \<Rightarrow> state \<Rightarrow> string \<times> state" where
  "add_task_web ttl desc cat now s =
     (if strip ttl = [] then (''Error: Title cannot be empty!'', s)
      else
        (let task = \<lparr>task_id = next_id s, title = strip ttl, description = strip desc,
                     category = cat, created_at = now, completed = False\<rparr>;
             s1 = s\<lparr>tasks := tasks s @ [task]\<rparr>;
             s2 = s1\<lparr>next_id := next_id s1 + 1\<rparr>
         in (''Task #'' @ str_int (task_id task) @ '' '' @ [CHR 0x27] @ title task @ [CHR 0x27]
               @ '' added successfully!'',
             save_to_file s2)))"

text \<open>\<^verbatim>\<open>sep.join(xs)\<close>.\<close>

fun join :: "string \<Rightarrow> string list \<Rightarrow> string" where
  "join sep [] = []"
| "join sep [x] = x"
| "join sep (x # y # ys) = x @ sep @ join sep (y # ys)"

text \<open>The block of text \<^verbatim>\<open>get_tasks_display\<close> appends for one task.\<close>

definition display_task :: "Task \<Rightarrow> string" where
  "display_task task =
     (let status = (if completed task then ''[DONE]'' else ''[    ]'') in
      status @ '' #'' @ str_int (task_id task) @ '' | '' @ title task @ [CHR 0x0A]
      @ ''        Category: '' @ category task @ '' | Created: '' @ created_at task @ [CHR 0x0A]
      @ ''        Description: ''
      @ (if description task \<noteq> [] then description task else ''No description''))"

text \<open>The part of \<^verbatim>\<open>get_tasks_display\<close> after the filter: the text for the selected tasks.\<close>

definition display :: "Task list \<Rightarrow> string" where
  "display ts =
     (if ts = [] then ''No tasks found.''
      else join [CHR 0x0A, CHR 0x0A] (map display_task ts))"

definition get_tasks_display :: "string \<Rightarrow> state \<Rightarrow> string" where
  "get_tasks_display filter_category s =
     (let ts = tasks s;
          ts = (if filter_category \<noteq> ''All''
                then [t \<leftarrow> ts. category t = filter_category] else ts)
      in display ts)"

text \<open>
  The assignments of \<^verbatim>\<open>update_task\<close> in \<^verbatim>\<open>app.py\<close>: \<^verbatim>\<open>if title.strip()\<close>,
  \<^verbatim>\<open>if description.strip()\<close>, \<^verbatim>\<open>if category\<close>.
\<close>

definition update_fields_web :: "string \<Rightarrow> string \<Rightarrow> string \<Rightarrow> Task \<Rightarrow> Task" where
  "update_fields_web new_title new_desc new_cat task =
     (let t1 = (if strip new_title \<noteq> [] then task\<lparr>title := strip new_title\<rparr> else task);
          t2 = (if strip new_desc \<noteq> [] then t1\<lparr>description := strip new_desc\<rparr> else t1);
          t3 = (if new_cat \<noteq> [] then t2\<lparr>category := new_cat\<rparr> else t2)
      in t3)"

definition update_task_web :: "int \<Rightarrow> string \<Rightarrow> string \<Rightarrow> string \<Rightarrow> state \<Rightarrow> string \<times> state" where
  "update_task_web tid new_title new_desc new_cat s =
     (case find (\<lambda>task. task_id task = tid) (tasks s) of
        Some task \<Rightarrow>
          (''Task #'' @ str_int tid @ '' updated successfully!'',
           save_to_file
             (s\<lparr>tasks := assign_found tid (update_fields_web new_title new_desc new_cat) (tasks s)\<rparr>))
      | None \<Rightarrow> (''Error: Task #'' @ str_int tid @ '' not found!'', s))"

definition delete_task_web :: "int \<Rightarrow> state \<Rightarrow> string \<times> state" where
  "delete_task_web tid s =
     (case find (\<lambda>task. task_id task = tid) (tasks s) of
        Some task \<Rightarrow>
          (''Task #'' @ str_int tid @ '' deleted successfully!'',
           save_to_file (s\<lparr>tasks := remove1 task (tasks s)\<rparr>))
      | None \<Rightarrow> (''Error: Task #'' @ str_int tid @ '' not found!'', s))"

definition toggle_complete_web :: "int \<Rightarrow> state \<Rightarrow> string \<times> state" where
  "toggle_complete_web tid s =
     (case find (\<lambda>task. task_id task = tid) (tasks s) of
        Some task \<Rightarrow>
          (let status = (if \<not> completed task then ''completed'' else ''incomplete'') in
           (''Task #'' @ str_int tid @ '' marked as '' @ status @ ''!'',
            save_to_file
              (s\<lparr>tasks := assign_found tid (\<lambda>t. t\<lparr>completed := \<not> completed t\<rparr>) (tasks s)\<rparr>)))
      | None \<Rightarrow> (''Error: Task #'' @ str_int tid @ '' not found!'', s))"

definition get_task_ids :: "state \<Rightarrow> int list" where
  "get_task_ids s = map task_id (tasks s)"

section \<open>Sequences of calls\<close>

text \<open>
  A call of a method of \<^verbatim>\<open>todo_app.py\<close> with its arguments; the last argument of
  \<open>Create\<close> is the clock reading. The optional arguments of \<^verbatim>\<open>update_task\<close> are
  \<open>None\<close> when omitted.
\<close>

datatype call =
    Create string string string string
  | Update int "string option" "string option" "string option"
  | Delete int
  | Toggle int

text \<open>A call of a method of \<^verbatim>\<open>app.py\<close>, whose \<^verbatim>\<open>update_task\<close> takes three strings.\<close>

datatype web_call =
    WebCreate string string string string
  | WebUpdate int string string string
  | WebDelete int
  | WebToggle int

text \<open>
  What a call does to the ids: \<open>Assigned i\<close> when a task was created with id \<open>i\<close>,
  \<open>Removed i\<close> when a task with id \<open>i\<close> was deleted.
\<close>

datatype event = Assigned int | Removed int

fun call_step :: "call \<Rightarrow> state \<Rightarrow> event list \<times> state" where
  "call_step (Create ttl desc cat now) s =
     (let (task, s') = add_task ttl desc cat now s in ([Assigned (task_id task)], s'))"
| "call_step (Update tid new_title new_desc new_cat) s =
     (let (ok, s') = update_task tid new_title new_desc new_cat s in ([], s'))"
| "call_step (Delete tid) s =
     (let (ok, s') = delete_task tid s in (if ok then [Removed tid] else [], s'))"
| "call_step (Toggle tid) s =
     (let (ok, s') = toggle_complete tid s in ([], s'))"

text \<open>
  The methods of \<^verbatim>\<open>app.py\<close> report by a message: a creation that was not refused
  appended a task, whose id is then the last of the list.
\<close>

fun web_step :: "web_call \<Rightarrow> state \<Rightarrow> event list \<times> state" where
  "web_step (WebCreate ttl desc cat now) s =
     (let (msg, s') = add_task_web ttl desc cat now s in
      (if msg = ''Error: Title cannot be empty!'' then []
       else [Assigned (task_id (last (tasks s')))], s'))"
| "web_step (WebUpdate tid new_title new_desc new_cat) s =
     (let (msg, s') = update_task_web tid new_title new_desc new_cat s in ([], s'))"
| "web_step (WebDelete tid) s =
     (let (msg, s') = delete_task_web tid s in
      (if msg = ''Task #'' @ str_int tid @ '' deleted successfully!'' then [Removed tid]
       else [], s'))"
| "web_step (WebToggle tid) s =
     (let (msg, s') = toggle_complete_web tid s in ([], s'))"

text \<open>
  The life of the store: calls of either program on the same \<^verbatim>\<open>tasks.json\<close>, and
  \<open>Restart\<close>, the end of the process followed by a new \<^verbatim>\<open>TodoApp()\<close> that loads the
  file as the last call left it. A restart whose constructor does not return a store
  ends the run with \<open>None\<close>.
\<close>

datatype action = Console call | Web web_call | Restart

fun step :: "action \<Rightarrow> state \<Rightarrow> (event list \<times> state) option" where
  "step (Console c) s = Some (call_step c s)"
| "step (Web c) s = Some (web_step c s)"
| "step Restart s =
     (case TodoApp_init (data_file s) of
        Ready s' \<Rightarrow> Some ([], s')
      | _ \<Rightarrow> None)"

fun run :: "action list \<Rightarrow> state \<Rightarrow> (event list \<times> state) option" where
  "run [] s = Some ([], s)"
| "run (a # acts) s =
     (case step a s of
        None \<Rightarrow> None
      | Some (es, s') \<Rightarrow>
          (case run acts s' of
             None \<Rightarrow> None
           | Some (es', s'') \<Rightarrow> Some (es @ es', s'')))"

text \<open>The ids assigned by a run, in call order.\<close>

fun assigned :: "event list \<Rightarrow> int list" where
  "assigned [] = []"
| "assigned (Assigned i # es) = i # assigned es"
| "assigned (Removed i # es) = assigned es"

text \<open>The call of \<^verbatim>\<open>todo_app.py\<close> with the same arguments as a call of \<^verbatim>\<open>app.py\<close>.\<close>

fun same_call :: "web_call \<Rightarrow> call" where
  "same_call (WebCreate ttl desc cat now) = Create ttl desc cat now"
| "same_call (WebUpdate tid new_title new_desc new_cat) =
     Update tid (Some new_title) (Some new_desc) (Some new_cat)"
| "same_call (WebDelete tid) = Delete tid"
| "same_call (WebToggle tid) = Toggle tid"

text \<open>
  Arguments on which the checks of the two programs coincide: text already stripped, a
  title to create that is not empty, a description to update that is not empty.
\<close>

fun plain_args :: "web_call \<Rightarrow> bool" where
  "plain_args (WebCreate ttl desc cat now) = (strip ttl = ttl \<and> ttl \<noteq> [] \<and> strip desc = desc)"
| "plain_args (WebUpdate tid new_title new_desc new_cat) =
     (strip new_title = new_title \<and> strip new_desc = new_desc \<and> new_desc \<noteq> [])"
| "plain_args (WebDelete tid) = True"
| "plain_args (WebToggle tid) = True"

section \<open>Sample stores and documents\<close>

text \<open>A store with three tasks, two of them in the same category.\<close>

definition demo :: state where
  "demo = \<lparr>tasks =
     [\<lparr>task_id = 1, title = ''Buy milk'', description = [], category = ''Shopping'',
        created_at = ''2026-02-14 09:00:00'', completed = False\<rparr>,
      \<lparr>task_id = 2, title = ''Write report'', description = ''Q1 summary'', category = ''Work'',
        created_at = ''2026-02-14 09:05:00'', completed = True\<rparr>,
      \<lparr>task_id = 3, title = ''Call dentist'', description = [], category = ''Shopping'',
        created_at = ''2026-02-14 09:10:00'', completed = False\<rparr>],
     next_id = 4, data_file = None\<rparr>"

text \<open>A document in which two task entries have the id 1, and the store it loads to.\<close>

definition twin_first :: Task where
  "twin_first = \<lparr>task_id = 1, title = ''first'', description = ''a'', category = ''Work'',
     created_at = ''2026-02-14 09:00:00'', completed = False\<rparr>"

definition twin_second :: Task where
  "twin_second = \<lparr>task_id = 1, title = ''second'', description = ''b'', category = ''Other'',
     created_at = ''2026-02-14 09:30:00'', completed = False\<rparr>"

definition twin_doc :: json where
  "twin_doc = JDict
     [(''next_id'', JInt 2),
      (''tasks'', JList
         [JDict [(''id'', JInt 1), (''title'', JStr ''first''), (''description'', JStr ''a''),
                 (''category'', JStr ''Work''), (''created_at'', JStr ''2026-02-14 09:00:00''),
                 (''completed'', JBool False)],
          JDict [(''id'', JInt 1), (''title'', JStr ''second''), (''description'', JStr ''b''),
                 (''category'', JStr ''Other''), (''created_at'', JStr ''2026-02-14 09:30:00''),
                 (''completed'', JBool False)]])]"

definition twins :: state where
  "twins = \<lparr>tasks = [twin_first, twin_second], next_id = 2, data_file = Some (Parsed twin_doc)\<rparr>"

text \<open>A document with a \<^verbatim>\<open>next_id\<close> key and no \<^verbatim>\<open>tasks\<close> key.\<close>

definition counter_only_doc :: json where
  "counter_only_doc = JDict [(''next_id'', JInt 5)]"

text \<open>A document whose only task entry lacks all fields but \<^verbatim>\<open>id\<close> and \<^verbatim>\<open>title\<close>.\<close>

definition short_entry_doc :: json where
  "short_entry_doc = JDict
     [(''next_id'', JInt 2),
      (''tasks'', JList [JDict [(''id'', JInt 1), (''title'', JStr ''Buy milk'')]])]"

section \<open>Properties of a store and of a run\<close>

text \<open>Every task of the store has an id below \<open>next_id\<close>.\<close>

definition ids_below :: "state \<Rightarrow> bool" where
  "ids_below s \<longleftrightarrow> list_all (\<lambda>t. task_id t < next_id s) (tasks s)"

text \<open>A new \<^verbatim>\<open>TodoApp()\<close> on the file of the store gives the store back.\<close>

definition restartable :: "state \<Rightarrow> bool" where
  "restartable s \<longleftrightarrow> TodoApp_init (data_file s) = Ready s"

text \<open>No id is assigned after a task with that id was removed.\<close>

fun no_reuse :: "event list \<Rightarrow> bool" where
  "no_reuse [] = True"
| "no_reuse (Assigned i # es) = no_reuse es"
| "no_reuse (Removed i # es) = (Assigned i \<notin> set es \<and> no_reuse es)"

text \<open>
  What one call does to a store with these two properties: it keeps them, and it assigns
  the id \<open>next_id\<close> and increments the counter, or removes a task whose id was below
  the counter, or leaves the ids alone.
\<close>

definition step_ok :: "state \<Rightarrow> event list \<Rightarrow> state \<Rightarrow> bool" where
  "step_ok s es s' \<longleftrightarrow>
     ids_below s' \<and> restartable s' \<and>
     (es = [] \<and> next_id s' = next_id s \<or>
      es = [Assigned (next_id s)] \<and> next_id s' = next_id s + 1 \<or>
      (\<exists>i. es = [Removed i] \<and> i < next_id s \<and> next_id s' = next_id s))"

text \<open>
  What a run does: the ids it assigns lie between the counter before and the counter
  after, in increasing order, and the ids it removes lie below the counter after.
\<close>

definition run_ok :: "state \<Rightarrow> event list \<Rightarrow> state \<Rightarrow> bool" where
  "run_ok s es s' \<longleftrightarrow>
     ids_below s' \<and> restartable s' \<and> next_id s \<le> next_id s' \<and>
     (\<forall>i. Assigned i \<in> set es \<longrightarrow> next_id s \<le> i \<and> i < next_id s') \<and>
     (\<forall>i. Removed i \<in> set es \<longrightarrow> i < next_id s') \<and>
     sorted_wrt (<) (assigned es) \<and> no_reuse es"

text \<open>
  The scenario of the specification: two creations, a deletion, a restart, and a
  creation through the form.
\<close>

definition scenario :: "action list" where
  "scenario =
     [Console (Create ''Buy milk'' [] ''Shopping'' ''2026-02-14 09:00:00''),
      Console (Create ''Write report'' ''Q1 summary'' ''Work'' ''2026-02-14 09:05:00''),
      Console (Delete 1),
      Restart,
      Web (WebCreate ''Call dentist'' [] ''Health'' ''2026-02-14 09:10:00'')]"

text \<open>A shorter run: a creation through the form, a toggle, a restart, a creation.\<close>

definition short_run :: "action list" where
  "short_run =
     [Web (WebCreate ''Buy milk'' [] ''Shopping'' ''2026-02-14 09:00:00''),
      Console (Toggle 1),
      Restart,
      Console (Create ''Write report'' [] ''Work'' ''2026-02-14 09:05:00'')]"

text \<open>A creation with an empty title, to compare the two programs.\<close>

definition blank_create :: web_call where
  "blank_create = WebCreate [] [] ''Work'' ''2026-02-14 09:00:00''"

text \<open>Calls with stripped text: a creation, an update, a toggle, a deletion.\<close>

definition plain_calls :: "web_call list" where
  "plain_calls =
     [WebCreate ''Buy milk'' [] ''Shopping'' ''2026-02-14 09:00:00'',
      WebUpdate 1 [] ''two litres'' ''Other'',
      WebToggle 1,
      WebDelete 1]"

section \<open>Round trip\<close>

lemma Task_init_asdict: "Task_init (asdict t) = Inr (Some t)"
  by (simp add: asdict_def Task_fields_def Task_required_def Task_typed_def)

lemma build_tasks_asdict: "build_tasks (map asdict ts) = Inr (map Some ts)"
  by (induction ts) (simp_all add: Task_init_asdict)

lemma load_body_saved:
  "load_body (Parsed (JDict [(''next_id'', JInt n), (''tasks'', JList (map asdict ts))]))
     = Inr (JInt n, map Some ts)"
  by (simp add: load_body_def build_tasks_asdict)

lemma load_saved:
  "load_from_file \<lparr>tasks = ts0, next_id = n0,
       data_file = Some (Parsed (JDict [(''next_id'', JInt n), (''tasks'', JList (map asdict ts))]))\<rparr>
     = Ready \<lparr>tasks = ts, next_id = n,
         data_file = Some (Parsed (JDict [(''next_id'', JInt n), (''tasks'', JList (map asdict ts))]))\<rparr>"
  by (simp add: load_from_file_def load_body_saved list_all_iff comp_def)

text \<open>
  C2. Saving any store and constructing a fresh store from the file that was written
  gives a store with the same task sequence (every field of every task, in the same
  order) and the same \<open>next_id\<close>; the file is left as written.
\<close>

theorem save_load_roundtrip:
  "TodoApp_init (data_file (save_to_file s))
     = Ready \<lparr>tasks = tasks s, next_id = next_id s, data_file = data_file (save_to_file s)\<rparr>"
  by (simp add: TodoApp_init_def save_to_file_def load_saved)

theorem save_load_roundtrip_witness:
  "TodoApp_init (data_file (save_to_file demo))
     = Ready (demo\<lparr>data_file := data_file (save_to_file demo)\<rparr>)"
  using save_load_roundtrip [of demo] by (simp add: demo_def)

section \<open>Listing\<close>

text \<open>
  C3. \<^verbatim>\<open>get_all_tasks\<close> returns the task sequence, to which \<^verbatim>\<open>add_task\<close> appends at
  the end, so it is in insertion order. \<^verbatim>\<open>get_tasks_by_category\<close> with a category
  returns exactly the tasks of the unfiltered list with that category, in their relative
  order. \<^verbatim>\<open>get_tasks_display\<close> renders all tasks for the filter \<^verbatim>\<open>"All"\<close> and, for
  any other filter, exactly the tasks with that category, in their relative order.
\<close>

theorem list_filter_subsequence:
  "get_all_tasks s = tasks s \<and>
   get_all_tasks (snd (add_task ttl desc cat now s))
     = get_all_tasks s @ [fst (add_task ttl desc cat now s)] \<and>
   get_tasks_by_category c s = filter (\<lambda>t. category t = c) (get_all_tasks s) \<and>
   get_tasks_display c s
     = display (if c = ''All'' then tasks s else filter (\<lambda>t. category t = c) (tasks s))"
  by (simp add: get_all_tasks_def get_tasks_by_category_def get_tasks_display_def
      add_task_def save_to_file_def Let_def)

theorem list_filter_subsequence_witness:
  "get_tasks_by_category ''Shopping'' demo = [tasks demo ! 0, tasks demo ! 2] \<and>
   get_tasks_display ''Shopping'' demo = display [tasks demo ! 0, tasks demo ! 2] \<and>
   get_tasks_display ''All'' demo = display (tasks demo)"
  using list_filter_subsequence [of demo _ _ _ _ "''Shopping''"]
    list_filter_subsequence [of demo _ _ _ _ "''All''"]
  by (simp add: demo_def)

section \<open>The first task with a given id\<close>

lemma find_first:
  "P x \<Longrightarrow> \<forall>y \<in> set pre. \<not> P y \<Longrightarrow> find P (pre @ x # post) = Some x"
  by (induction pre) simp_all

lemma find_SomeD:
  "find P xs = Some x \<Longrightarrow> \<exists>pre post. xs = pre @ x # post \<and> P x \<and> (\<forall>y \<in> set pre. \<not> P y)"
proof (induction xs)
  case Nil
  then show ?case by simp
next
  case (Cons a xs)
  show ?case
  proof (cases "P a")
    case True
    with Cons.prems have "a = x" by simp
    with True have "a # xs = [] @ x # xs \<and> P x \<and> (\<forall>y \<in> set []. \<not> P y)" by simp
    then show ?thesis by blast
  next
    case False
    with Cons.prems have "find P xs = Some x" by simp
    from Cons.IH [OF this] obtain pre post
      where "xs = pre @ x # post" "P x" "\<forall>y \<in> set pre. \<not> P y" by blast
    with False have "a # xs = (a # pre) @ x # post \<and> P x \<and> (\<forall>y \<in> set (a # pre). \<not> P y)"
      by simp
    then show ?thesis by blast
  qed
qed

lemma find_exists: "\<exists>x \<in> set xs. P x \<Longrightarrow> \<exists>x. find P xs = Some x"
  by (induction xs) auto

lemma assign_found_first:
  "task_id t = tid \<Longrightarrow> \<forall>u \<in> set pre. task_id u \<noteq> tid \<Longrightarrow>
   assign_found tid f (pre @ t # post) = pre @ f t # post"
  by (induction pre) simp_all

lemma remove1_first:
  "task_id t = tid \<Longrightarrow> \<forall>u \<in> set pre. task_id u \<noteq> tid \<Longrightarrow>
   remove1 t (pre @ t # post) = pre @ post"
  by (induction pre) auto

lemma assign_found_ids:
  "(\<And>t. task_id (f t) = task_id t) \<Longrightarrow> map task_id (assign_found tid f ts) = map task_id ts"
  by (induction ts) simp_all

text \<open>
  C10. In every store, also one with several tasks of the same id, let \<open>t\<close> be the first
  task in sequence order whose id is \<open>tid\<close> (no task before it, in \<open>pre\<close>, has that id;
  the tasks after it, in \<open>post\<close>, are arbitrary and may have it). Then
  \<^verbatim>\<open>get_task_by_id\<close> returns \<open>t\<close>, and \<^verbatim>\<open>update_task\<close>, \<^verbatim>\<open>delete_task\<close> and
  \<^verbatim>\<open>toggle_complete\<close> of both programs change or remove \<open>t\<close> alone: \<open>pre\<close> and
  \<open>post\<close> stay as they are.
\<close>

theorem first_match_only:
  assumes "tasks s = pre @ t # post" and "task_id t = tid"
    and "\<forall>u \<in> set pre. task_id u \<noteq> tid"
  shows "get_task_by_id tid s = Some t \<and>
    update_task tid new_title new_desc new_cat s
      = (True, save_to_file (s\<lparr>tasks := pre @ update_fields new_title new_desc new_cat t # post\<rparr>)) \<and>
    delete_task tid s = (True, save_to_file (s\<lparr>tasks := pre @ post\<rparr>)) \<and>
    toggle_complete tid s
      = (True, save_to_file (s\<lparr>tasks := pre @ t\<lparr>completed := \<not> completed t\<rparr> # post\<rparr>)) \<and>
    snd (update_task_web tid title' desc' cat' s)
      = save_to_file (s\<lparr>tasks := pre @ update_fields_web title' desc' cat' t # post\<rparr>) \<and>
    snd (delete_task_web tid s) = save_to_file (s\<lparr>tasks := pre @ post\<rparr>) \<and>
    snd (toggle_complete_web tid s)
      = save_to_file (s\<lparr>tasks := pre @ t\<lparr>completed := \<not> completed t\<rparr> # post\<rparr>)"
proof -
  have f: "find (\<lambda>task. task_id task = tid) (tasks s) = Some t"
    using assms by (simp add: find_first)
  have a: "\<And>f. assign_found tid f (tasks s) = pre @ f t # post"
    using assms by (simp add: assign_found_first)
  have r: "remove1 t (tasks s) = pre @ post"
    using assms by (simp add: remove1_first)
  show ?thesis
    by (simp add: get_task_by_id_def update_task_def delete_task_def toggle_complete_def
        update_task_web_def delete_task_web_def toggle_complete_web_def f a r Let_def)
qed

lemma twins_loaded: "TodoApp_init (Some (Parsed twin_doc)) = Ready twins"
  by (simp add: TodoApp_init_def load_from_file_def load_body_def twin_doc_def twins_def
      twin_first_def twin_second_def Task_fields_def Task_required_def Task_typed_def)

theorem first_match_only_witness:
  "TodoApp_init (Some (Parsed twin_doc)) = Ready twins \<and>
   get_task_by_id 1 twins = Some twin_first \<and>
   tasks (snd (update_task 1 (Some ''third'') None None twins))
     = [twin_first\<lparr>title := ''third''\<rparr>, twin_second] \<and>
   tasks (snd (delete_task 1 twins)) = [twin_second] \<and>
   tasks (snd (toggle_complete 1 twins)) = [twin_first\<lparr>completed := True\<rparr>, twin_second] \<and>
   tasks (snd (update_task_web 1 ''third'' [] [] twins))
     = [twin_first\<lparr>title := ''third''\<rparr>, twin_second] \<and>
   tasks (snd (delete_task_web 1 twins)) = [twin_second] \<and>
   tasks (snd (toggle_complete_web 1 twins)) = [twin_first\<lparr>completed := True\<rparr>, twin_second]"
  using first_match_only [of twins "[]" twin_first "[twin_second]" 1 "Some ''third''" None None
      "''third''" "[]" "[]"] twins_loaded
  by (simp add: twins_def twin_first_def twin_second_def save_to_file_def update_fields_def
      update_fields_web_def strip_def isspace_def)

section \<open>Toggling twice\<close>

lemma toggle_tasks:
  assumes "find (\<lambda>task. task_id task = tid) ts = Some t"
  shows "\<exists>pre post. ts = pre @ t # post \<and>
     assign_found tid (\<lambda>t. t\<lparr>completed := \<not> completed t\<rparr>) ts = pre @ t\<lparr>completed := \<not> completed t\<rparr> # post \<and>
     find (\<lambda>task. task_id task = tid) (pre @ t\<lparr>completed := \<not> completed t\<rparr> # post)
        = Some (t\<lparr>completed := \<not> completed t\<rparr>) \<and>
     assign_found tid (\<lambda>t. t\<lparr>completed := \<not> completed t\<rparr>) (pre @ t\<lparr>completed := \<not> completed t\<rparr> # post) = ts"
proof -
  from find_SomeD [OF assms] obtain pre post
    where ts: "ts = pre @ t # post" and t: "task_id t = tid"
      and pre: "\<forall>y \<in> set pre. task_id y \<noteq> tid" by blast
  let ?t' = "t\<lparr>completed := \<not> completed t\<rparr>"
  have t': "task_id ?t' = tid" using t by simp
  have a1: "assign_found tid (\<lambda>t. t\<lparr>completed := \<not> completed t\<rparr>) ts = pre @ ?t' # post"
    using ts t pre by (simp add: assign_found_first)
  have f2: "find (\<lambda>task. task_id task = tid) (pre @ ?t' # post) = Some ?t'"
    using t' pre by (simp add: find_first)
  have a2: "assign_found tid (\<lambda>t. t\<lparr>completed := \<not> completed t\<rparr>) (pre @ ?t' # post) = ts"
    using ts t' pre by (simp add: assign_found_first)
  from ts a1 f2 a2 show ?thesis by blast
qed

text \<open>
  C8. When the store has a task with the id, \<^verbatim>\<open>toggle_complete\<close> called twice on it
  succeeds both times (in \<^verbatim>\<open>todo_app.py\<close> it returns \<^verbatim>\<open>True\<close>, in \<^verbatim>\<open>app.py\<close> its
  message is not the not-found one), and after the second call the task sequence, hence
  the flag of that task, and \<open>next_id\<close> are what they were before the first.
\<close>

theorem toggle_twice:
  assumes "\<exists>t \<in> set (tasks s). task_id t = tid"
  shows "fst (toggle_complete tid s) \<and>
    fst (toggle_complete tid (snd (toggle_complete tid s))) \<and>
    tasks (snd (toggle_complete tid (snd (toggle_complete tid s)))) = tasks s \<and>
    next_id (snd (toggle_complete tid (snd (toggle_complete tid s)))) = next_id s \<and>
    fst (toggle_complete_web tid s) \<noteq> ''Error: Task #'' @ str_int tid @ '' not found!'' \<and>
    fst (toggle_complete_web tid (snd (toggle_complete_web tid s)))
      \<noteq> ''Error: Task #'' @ str_int tid @ '' not found!'' \<and>
    tasks (snd (toggle_complete_web tid (snd (toggle_complete_web tid s)))) = tasks s \<and>
    next_id (snd (toggle_complete_web tid (snd (toggle_complete_web tid s)))) = next_id s"
proof -
  from find_exists [of "tasks s" "\<lambda>task. task_id task = tid"] assms
  obtain t where f: "find (\<lambda>task. task_id task = tid) (tasks s) = Some t" by blast
  from toggle_tasks [OF f] obtain pre post where
    ts: "tasks s = pre @ t # post" and
    a1: "assign_found tid (\<lambda>t. t\<lparr>completed := \<not> completed t\<rparr>) (tasks s)
           = pre @ t\<lparr>completed := \<not> completed t\<rparr> # post" and
    f2: "find (\<lambda>task. task_id task = tid) (pre @ t\<lparr>completed := \<not> completed t\<rparr> # post)
           = Some (t\<lparr>completed := \<not> completed t\<rparr>)" and
    a2: "assign_found tid (\<lambda>t. t\<lparr>completed := \<not> completed t\<rparr>)
           (pre @ t\<lparr>completed := \<not> completed t\<rparr> # post) = tasks s"
    by blast
  show ?thesis
    by (simp add: toggle_complete_def toggle_complete_web_def get_task_by_id_def
        save_to_file_def f a1 f2 a2 Let_def)
qed

theorem toggle_twice_witness:
  "fst (toggle_complete 2 demo) \<and>
   fst (toggle_complete 2 (snd (toggle_complete 2 demo))) \<and>
   map completed (tasks (snd (toggle_complete 2 demo))) = [False, False, False] \<and>
   tasks (snd (toggle_complete 2 (snd (toggle_complete 2 demo)))) = tasks demo \<and>
   tasks (snd (toggle_complete_web 2 (snd (toggle_complete_web 2 demo)))) = tasks demo"
  using toggle_twice [of demo 2]
  by (simp add: demo_def toggle_complete_def get_task_by_id_def save_to_file_def)

section \<open>Updating fields\<close>

text \<open>
  Against C5 as stated: \<^verbatim>\<open>update_task\<close> of \<^verbatim>\<open>todo_app.py\<close> tests the description with
  \<^verbatim>\<open>is not None\<close> and the title by its truth value. On the sample store, an empty
  description given for task 2 replaces \<^verbatim>\<open>"Q1 summary"\<close>, and a title of two spaces
  (empty after stripping) replaces the title.
\<close>

theorem update_blank_description_counterexample:
  "get_task_by_id 2 demo \<noteq> None \<and>
   map description (tasks demo) = [[], ''Q1 summary'', []] \<and>
   map description (tasks (snd (update_task 2 None (Some []) None demo))) = [[], [], []] \<and>
   strip ''  '' = [] \<and>
   map title (tasks (snd (update_task 2 (Some ''  '') None None demo)))
     = [''Buy milk'', ''  '', ''Call dentist'']"
  by (simp add: demo_def update_task_def get_task_by_id_def update_fields_def save_to_file_def
      strip_def isspace_def)

text \<open>
  C5, amended. Let \<open>t\<close> be the task that \<^verbatim>\<open>get_task_by_id\<close> finds for the id. After
  \<^verbatim>\<open>update_task\<close> of \<^verbatim>\<open>todo_app.py\<close> the task found for the id is \<open>t\<close> with: the title
  replaced when the argument is given and not empty, kept otherwise; the description
  replaced by any given argument, the empty string too, and kept when the argument is
  omitted; the category replaced when the argument is given and not empty, kept
  otherwise. After \<^verbatim>\<open>update_task\<close> of \<^verbatim>\<open>app.py\<close> it is \<open>t\<close> with title and
  description replaced by the stripped argument when that is not empty and kept otherwise,
  and the category replaced when the argument is not empty. No other field changes. With
  only a title given (the other arguments omitted, or empty in \<^verbatim>\<open>app.py\<close>),
  description, category and completion flag are those of \<open>t\<close>.
\<close>

theorem update_keeps_blank_fields:
  assumes "get_task_by_id tid s = Some t"
  shows "get_task_by_id tid (snd (update_task tid new_title new_desc new_cat s))
      = Some (t\<lparr>title := (if truthy new_title then the new_title else title t),
                 description := (case new_desc of None \<Rightarrow> description t | Some d \<Rightarrow> d),
                 category := (if truthy new_cat then the new_cat else category t)\<rparr>) \<and>
    get_task_by_id tid (snd (update_task tid (Some ttl) None None s))
      = Some (t\<lparr>title := (if ttl = [] then title t else ttl)\<rparr>) \<and>
    get_task_by_id tid (snd (update_task_web tid title' desc' cat' s))
      = Some (t\<lparr>title := (if strip title' = [] then title t else strip title'),
                 description := (if strip desc' = [] then description t else strip desc'),
                 category := (if cat' = [] then category t else cat')\<rparr>) \<and>
    get_task_by_id tid (snd (update_task_web tid title' [] [] s))
      = Some (t\<lparr>title := (if strip title' = [] then title t else strip title')\<rparr>)"
proof -
  from assms have f: "find (\<lambda>task. task_id task = tid) (tasks s) = Some t"
    by (simp add: get_task_by_id_def)
  from find_SomeD [OF f] obtain pre post
    where ts: "tasks s = pre @ t # post" and t: "task_id t = tid"
      and pre: "\<forall>y \<in> set pre. task_id y \<noteq> tid" by blast
  have a: "\<And>f. assign_found tid f (tasks s) = pre @ f t # post"
    using ts t pre by (simp add: assign_found_first)
  have g: "\<And>u. task_id u = tid \<Longrightarrow> find (\<lambda>task. task_id task = tid) (pre @ u # post) = Some u"
    using pre by (simp add: find_first)
  have c: "\<And>a b c. task_id (update_fields a b c t) = tid"
    using t by (simp add: update_fields_def Let_def split: option.splits)
  have w: "\<And>a b c. task_id (update_fields_web a b c t) = tid"
    using t by (simp add: update_fields_web_def Let_def)
  have e: "strip [] = []" by (simp add: strip_def)
  show ?thesis
    by (simp add: update_task_def update_task_web_def get_task_by_id_def save_to_file_def
        f a g c w)
      (simp add: update_fields_def update_fields_web_def Let_def e split: option.splits)
qed

theorem update_keeps_blank_fields_witness:
  "get_task_by_id 2 demo = Some (tasks demo ! 1) \<and>
   get_task_by_id 2 (snd (update_task 2 (Some ''Write memo'') None None demo))
     = Some ((tasks demo ! 1)\<lparr>title := ''Write memo''\<rparr>) \<and>
   get_task_by_id 2 (snd (update_task_web 2 '' Write memo '' [CHR 0xA0, CHR '' ''] [] demo))
     = Some ((tasks demo ! 1)\<lparr>title := ''Write memo''\<rparr>)"
proof -
  have h: "get_task_by_id 2 demo = Some (tasks demo ! 1)"
    by (simp add: demo_def get_task_by_id_def)
  show ?thesis
    using h update_keeps_blank_fields [OF h, of "Some ''Write memo''" None None "''Write memo''"
        "'' Write memo ''" "[CHR 0xA0, CHR '' '']" "[]"]
    by (simp add: strip_def isspace_def)
qed

section \<open>Creating with a blank title\<close>

text \<open>
  Against C4 as stated: \<^verbatim>\<open>add_task\<close> of \<^verbatim>\<open>todo_app.py\<close> has no check of the title.
  Called with a title of two spaces it returns a task with that title, appends it,
  increments \<open>next_id\<close> and writes the file.
\<close>

theorem console_store_adds_blank_title_counterexample:
  "strip ''  '' = [] \<and>
   fst (add_task ''  '' [] ''Work'' ''2026-02-14 10:00:00'' demo)
     = \<lparr>task_id = 4, title = ''  '', description = [], category = ''Work'',
         created_at = ''2026-02-14 10:00:00'', completed = False\<rparr> \<and>
   tasks (snd (add_task ''  '' [] ''Work'' ''2026-02-14 10:00:00'' demo))
     = tasks demo @ [fst (add_task ''  '' [] ''Work'' ''2026-02-14 10:00:00'' demo)] \<and>
   next_id (snd (add_task ''  '' [] ''Work'' ''2026-02-14 10:00:00'' demo)) = 5 \<and>
   data_file (snd (add_task ''  '' [] ''Work'' ''2026-02-14 10:00:00'' demo)) \<noteq> data_file demo"
  by (simp add: demo_def add_task_def save_to_file_def strip_def isspace_def Let_def)

text \<open>
  C4, amended. For a title that is empty after stripping, \<^verbatim>\<open>add_task\<close> of \<^verbatim>\<open>app.py\<close>
  returns the message \<^verbatim>\<open>Error: Title cannot be empty!\<close> and leaves tasks, \<open>next_id\<close>
  and file as they are. In \<^verbatim>\<open>todo_app.py\<close> the refusal is in the adapter:
  \<^verbatim>\<open>handle_add_task\<close> prints \<^verbatim>\<open>Error: Title cannot be empty.\<close> and returns without
  calling the store, which is left as it is.
\<close>

theorem blank_title_rejected:
  assumes "strip ttl = []"
  shows "add_task_web ttl desc cat now s = (''Error: Title cannot be empty!'', s) \<and>
    handle_add_task ttl line2 cat now s = (''Error: Title cannot be empty.'', s)"
  using assms by (simp add: add_task_web_def handle_add_task_def)

theorem blank_title_rejected_witness:
  "strip [CHR 0xA0, CHR '' '', CHR 0x09] = [] \<and>
   add_task_web [CHR 0xA0, CHR '' '', CHR 0x09] ''d'' ''Work'' ''2026-02-14 10:00:00'' demo
     = (''Error: Title cannot be empty!'', demo) \<and>
   handle_add_task [CHR 0xA0, CHR '' '', CHR 0x09] ''d'' ''Work'' ''2026-02-14 10:00:00'' demo
     = (''Error: Title cannot be empty.'', demo)"
proof -
  have h: "strip [CHR 0xA0, CHR '' '', CHR 0x09] = []" by (simp add: strip_def isspace_def)
  show ?thesis using h blank_title_rejected [OF h] by simp
qed

section \<open>Constructing the store from the file\<close>

text \<open>
  Against C6 as stated: a document without the \<^verbatim>\<open>tasks\<close> key whose \<^verbatim>\<open>next_id\<close> is
  5 loads to an empty task sequence with \<open>next_id = 5\<close>, not 1, since
  \<^verbatim>\<open>data.get("next_id", 1)\<close> falls back to 1 only when that key is missing.
\<close>

theorem load_keeps_counter_counterexample:
  "map_of [(''next_id'', JInt 5)] ''tasks'' = None \<and>
   TodoApp_init (Some (Parsed counter_only_doc))
     = Ready \<lparr>tasks = [], next_id = 5, data_file = Some (Parsed counter_only_doc)\<rparr>"
  by (simp add: counter_only_doc_def TodoApp_init_def load_from_file_def load_body_def)

text \<open>
  The \<^verbatim>\<open>except\<close> clause of \<^verbatim>\<open>load_from_file\<close> names \<^verbatim>\<open>JSONDecodeError\<close> and
  \<^verbatim>\<open>KeyError\<close> only. A task entry without all its fields raises \<^verbatim>\<open>TypeError\<close>, a
  document that is not an object raises \<^verbatim>\<open>AttributeError\<close>, and a file that cannot be
  read raises the exception of the read (\<^verbatim>\<open>UnicodeDecodeError\<close> for bytes that do not
  decode, \<^verbatim>\<open>ValueError\<close> for an integer literal beyond the digit limit): none is
  caught, and the constructor does not return a store.
\<close>

lemma load_unreadable_crashes:
  "e \<noteq> JSONDecodeError \<Longrightarrow> e \<noteq> KeyError \<Longrightarrow> TodoApp_init (Some (Unreadable e)) = Crash e"
  by (simp add: TodoApp_init_def load_from_file_def load_body_def)

lemma load_undecodable_crashes:
  "TodoApp_init (Some (Unreadable UnicodeDecodeError)) = Crash UnicodeDecodeError \<and>
   TodoApp_init (Some (Unreadable ValueError)) = Crash ValueError"
  by (simp add: TodoApp_init_def load_from_file_def load_body_def)

lemma load_short_entry_crashes:
  "TodoApp_init (Some (Parsed short_entry_doc)) = Crash TypeError"
  by (simp add: short_entry_doc_def TodoApp_init_def load_from_file_def load_body_def
      Task_fields_def Task_required_def)

lemma load_list_document_crashes:
  "TodoApp_init (Some (Parsed (JList []))) = Crash AttributeError"
  by (simp add: TodoApp_init_def load_from_file_def load_body_def)

text \<open>
  C6, amended. Without a file, and with a file whose text \<^verbatim>\<open>json.load\<close> rejects with
  \<^verbatim>\<open>JSONDecodeError\<close>, the constructor returns a store with no tasks and
  \<open>next_id = 1\<close>. With a JSON object that has no \<^verbatim>\<open>tasks\<close> key it returns a store with
  no tasks, whose \<open>next_id\<close> is 1 when the object has no \<^verbatim>\<open>next_id\<close> key and is the
  integer under that key otherwise. Nothing is said here of a file on which the read
  raises another exception, of a document that is not an object, and of task entries
  without all their fields.
\<close>

theorem load_without_tasks:
  "TodoApp_init None = Ready \<lparr>tasks = [], next_id = 1, data_file = None\<rparr> \<and>
   TodoApp_init (Some Malformed) = Ready \<lparr>tasks = [], next_id = 1, data_file = Some Malformed\<rparr> \<and>
   (map_of kvs ''tasks'' = None \<longrightarrow>
      (map_of kvs ''next_id'' = None \<longrightarrow>
         TodoApp_init (Some (Parsed (JDict kvs)))
           = Ready \<lparr>tasks = [], next_id = 1, data_file = Some (Parsed (JDict kvs))\<rparr>) \<and>
      (map_of kvs ''next_id'' = Some (JInt n) \<longrightarrow>
         TodoApp_init (Some (Parsed (JDict kvs)))
           = Ready \<lparr>tasks = [], next_id = n, data_file = Some (Parsed (JDict kvs))\<rparr>))"
  by (simp add: TodoApp_init_def load_from_file_def load_body_def)

theorem load_without_tasks_witness:
  "map_of [(''version'', JInt 3)] ''tasks'' = None \<and>
   map_of [(''version'', JInt 3)] ''next_id'' = None \<and>
   TodoApp_init (Some (Parsed (JDict [(''version'', JInt 3)])))
     = Ready \<lparr>tasks = [], next_id = 1, data_file = Some (Parsed (JDict [(''version'', JInt 3)]))\<rparr> \<and>
   map_of [(''next_id'', JInt 7)] ''tasks'' = None \<and>
   map_of [(''next_id'', JInt 7)] ''next_id'' = Some (JInt 7) \<and>
   TodoApp_init (Some (Parsed (JDict [(''next_id'', JInt 7)])))
     = Ready \<lparr>tasks = [], next_id = 7, data_file = Some (Parsed (JDict [(''next_id'', JInt 7)]))\<rparr>"
  using load_without_tasks [of "[(''version'', JInt 3)]"]
    load_without_tasks [of "[(''next_id'', JInt 7)]" 7]
  by simp

section \<open>Identifiers along a run\<close>

lemma restartable_save: "restartable (save_to_file s)"
  using load_saved [of "[]" 1 "next_id s" "tasks s"]
  by (simp add: restartable_def TodoApp_init_def save_to_file_def)

lemma ids_below_save: "ids_below (save_to_file s) = ids_below s"
  by (simp add: ids_below_def save_to_file_def)

lemma next_id_save: "next_id (save_to_file s) = next_id s"
  by (simp add: save_to_file_def)

lemma tasks_save: "tasks (save_to_file s) = tasks s"
  by (simp add: save_to_file_def)

lemma assign_found_set_ids:
  "(\<And>t. task_id (f t) = task_id t) \<Longrightarrow>
   list_all (\<lambda>t. task_id t < n) (assign_found tid f ts) = list_all (\<lambda>t. task_id t < n) ts"
  by (induction ts) simp_all

lemma update_fields_id: "task_id (update_fields a b c t) = task_id t"
  by (simp add: update_fields_def Let_def split: option.splits)

lemma update_fields_web_id: "task_id (update_fields_web a b c t) = task_id t"
  by (simp add: update_fields_web_def Let_def)

lemma list_all_remove1: "list_all P xs \<Longrightarrow> list_all P (remove1 x xs)"
  by (induction xs) auto

lemma find_Some_mem: "find P xs = Some x \<Longrightarrow> x \<in> set xs \<and> P x"
  by (induction xs) (auto split: if_splits)

lemma call_step_ok:
  assumes "ids_below s" "restartable s"
  shows "step_ok s (fst (call_step c s)) (snd (call_step c s))"
proof (cases c)
  case (Create ttl desc cat now)
  have "list_all (\<lambda>t. task_id t < next_id s + 1) (tasks s)"
    using assms(1) by (auto simp: ids_below_def list_all_iff)
  then show ?thesis
    using restartable_save
    by (simp add: Create step_ok_def add_task_def Let_def ids_below_save next_id_save tasks_save
        ids_below_def)
next
  case (Update tid a b c')
  show ?thesis
  proof (cases "get_task_by_id tid s")
    case None
    then show ?thesis using assms by (simp add: Update step_ok_def update_task_def)
  next
    case (Some t)
    then show ?thesis using assms(1) restartable_save
      by (simp add: Update step_ok_def update_task_def ids_below_save next_id_save tasks_save
          ids_below_def assign_found_set_ids update_fields_id)
  qed
next
  case (Delete tid)
  show ?thesis
  proof (cases "get_task_by_id tid s")
    case None
    then show ?thesis using assms by (simp add: Delete step_ok_def delete_task_def)
  next
    case (Some t)
    then have "find (\<lambda>task. task_id task = tid) (tasks s) = Some t"
      by (simp add: get_task_by_id_def)
    from find_Some_mem [OF this] have "t \<in> set (tasks s) \<and> task_id t = tid" .
    with assms(1) have "tid < next_id s" by (auto simp: ids_below_def list_all_iff)
    then show ?thesis using Some assms(1) restartable_save
      by (simp add: Delete step_ok_def delete_task_def ids_below_save next_id_save tasks_save
          ids_below_def list_all_remove1)
  qed
next
  case (Toggle tid)
  show ?thesis
  proof (cases "get_task_by_id tid s")
    case None
    then show ?thesis using assms by (simp add: Toggle step_ok_def toggle_complete_def)
  next
    case (Some t)
    then show ?thesis using assms(1) restartable_save
      by (simp add: Toggle step_ok_def toggle_complete_def ids_below_save next_id_save tasks_save
          ids_below_def assign_found_set_ids)
  qed
qed


lemma web_step_ok:
  assumes "ids_below s" "restartable s"
  shows "step_ok s (fst (web_step c s)) (snd (web_step c s))"
proof (cases c)
  case (WebCreate ttl desc cat now)
  show ?thesis
  proof (cases "strip ttl = []")
    case True
    then show ?thesis using assms by (simp add: WebCreate step_ok_def add_task_web_def)
  next
    case False
    have "list_all (\<lambda>t. task_id t < next_id s + 1) (tasks s)"
      using assms(1) by (auto simp: ids_below_def list_all_iff)
    then show ?thesis
      using False restartable_save
      by (simp add: WebCreate step_ok_def add_task_web_def Let_def ids_below_save next_id_save
          tasks_save ids_below_def)
  qed
next
  case (WebUpdate tid a b c')
  show ?thesis
  proof (cases "find (\<lambda>task. task_id task = tid) (tasks s)")
    case None
    then show ?thesis using assms by (simp add: WebUpdate step_ok_def update_task_web_def)
  next
    case (Some t)
    then show ?thesis using assms(1) restartable_save
      by (simp add: WebUpdate step_ok_def update_task_web_def ids_below_save next_id_save
          tasks_save ids_below_def assign_found_set_ids update_fields_web_id)
  qed
next
  case (WebDelete tid)
  show ?thesis
  proof (cases "find (\<lambda>task. task_id task = tid) (tasks s)")
    case None
    then show ?thesis using assms by (simp add: WebDelete step_ok_def delete_task_web_def)
  next
    case (Some t)
    from find_Some_mem [OF this] have "t \<in> set (tasks s) \<and> task_id t = tid" .
    with assms(1) have "tid < next_id s" by (auto simp: ids_below_def list_all_iff)
    then show ?thesis using Some assms(1) restartable_save
      by (simp add: WebDelete step_ok_def delete_task_web_def ids_below_save next_id_save
          tasks_save ids_below_def list_all_remove1)
  qed
next
  case (WebToggle tid)
  show ?thesis
  proof (cases "find (\<lambda>task. task_id task = tid) (tasks s)")
    case None
    then show ?thesis using assms by (simp add: WebToggle step_ok_def toggle_complete_web_def)
  next
    case (Some t)
    then show ?thesis using assms(1) restartable_save
      by (simp add: WebToggle step_ok_def toggle_complete_web_def ids_below_save next_id_save
          tasks_save ids_below_def assign_found_set_ids Let_def)
  qed
qed

lemma step_total:
  assumes "ids_below s" "restartable s"
  shows "\<exists>es s'. step a s = Some (es, s') \<and> step_ok s es s'"
proof (cases a)
  case (Console c)
  with call_step_ok [OF assms, of c] show ?thesis by (simp add: prod_eq_iff)
next
  case (Web c)
  with web_step_ok [OF assms, of c] show ?thesis by (simp add: prod_eq_iff)
next
  case Restart
  with assms show ?thesis by (simp add: restartable_def step_ok_def)
qed


lemma set_assigned: "i \<in> set (assigned es) \<longleftrightarrow> Assigned i \<in> set es"
  by (induction es rule: assigned.induct) auto

lemma no_reuse_split:
  "no_reuse es \<longleftrightarrow> (\<forall>pre i post. es = pre @ Removed i # post \<longrightarrow> Assigned i \<notin> set post)"
proof (induction es rule: no_reuse.induct)
  case 1
  then show ?case by simp
next
  case (2 j es)
  then show ?case by (simp add: Cons_eq_append_conv) blast
next
  case (3 j es)
  then show ?case by (simp add: Cons_eq_append_conv) blast
qed

lemma run_ok_step:
  assumes "step_ok s es1 s1" and "run_ok s1 es2 s2"
  shows "run_ok s (es1 @ es2) s2"
proof -
  from assms(1) consider
      (none) "es1 = []" "next_id s1 = next_id s"
    | (new) "es1 = [Assigned (next_id s)]" "next_id s1 = next_id s + 1"
    | (del) i where "es1 = [Removed i]" "i < next_id s" "next_id s1 = next_id s"
    by (auto simp: step_ok_def)
  then show ?thesis
  proof cases
    case none
    with assms(2) show ?thesis by (simp add: run_ok_def)
  next
    case new
    with assms(2) show ?thesis
      by (auto simp: run_ok_def set_assigned)
  next
    case del
    with assms(2) show ?thesis
      by (auto simp: run_ok_def)
  qed
qed

lemma run_total:
  "ids_below s \<Longrightarrow> restartable s \<Longrightarrow> \<exists>es s'. run acts s = Some (es, s') \<and> run_ok s es s'"
proof (induction acts arbitrary: s)
  case Nil
  then show ?case by (simp add: run_ok_def)
next
  case (Cons a acts)
  from step_total [OF Cons.prems, of a] obtain es1 s1
    where s1: "step a s = Some (es1, s1)" and ok1: "step_ok s es1 s1" by blast
  from ok1 have "ids_below s1" "restartable s1" by (simp_all add: step_ok_def)
  from Cons.IH [OF this] obtain es2 s2
    where s2: "run acts s1 = Some (es2, s2)" and ok2: "run_ok s1 es2 s2" by blast
  from run_ok_step [OF ok1 ok2] s1 s2 show ?case by simp
qed

lemma empty_store_ok:
  "f = None \<or> f = Some Malformed \<Longrightarrow>
   ids_below \<lparr>tasks = [], next_id = 1, data_file = f\<rparr> \<and>
   restartable \<lparr>tasks = [], next_id = 1, data_file = f\<rparr>"
  by (auto simp: ids_below_def restartable_def TodoApp_init_def load_from_file_def load_body_def)

text \<open>
  C1. Start from the empty store (no file, or a file that is not JSON) and run any
  sequence of calls of either program, creations interleaved with deletions, updates,
  toggles and restarts. The run goes through, the ids it assigns are strictly increasing
  in call order, hence pairwise distinct, and after a task with id \<open>i\<close> was removed no
  later creation assigns \<open>i\<close>.
\<close>

theorem ids_increasing_never_reused:
  assumes "f = None \<or> f = Some Malformed"
  shows "\<exists>es s. run acts \<lparr>tasks = [], next_id = 1, data_file = f\<rparr> = Some (es, s) \<and>
     sorted_wrt (<) (assigned es) \<and> distinct (assigned es) \<and>
     (\<forall>pre i post. es = pre @ Removed i # post \<longrightarrow> Assigned i \<notin> set post)"
proof -
  from empty_store_ok [OF assms] run_total obtain es s
    where r: "run acts \<lparr>tasks = [], next_id = 1, data_file = f\<rparr> = Some (es, s)"
      and ok: "run_ok \<lparr>tasks = [], next_id = 1, data_file = f\<rparr> es s" by blast
  from ok have sw: "sorted_wrt (<) (assigned es)" and nr: "no_reuse es"
    by (simp_all add: run_ok_def)
  from sw have "distinct (assigned es)" by (simp add: strict_sorted_iff)
  with r sw nr show ?thesis by (simp add: no_reuse_split [symmetric])
qed

text \<open>
  C7. Start from the empty store and run any sequence of creations, updates, deletions
  and toggles of either program, with restarts that construct the store anew from the
  file the calls persisted. The run goes through, and in the store it reaches \<open>next_id\<close>
  is above every id the run assigned and above the id of every task in the sequence.
\<close>

theorem next_id_above_ids:
  assumes "f = None \<or> f = Some Malformed"
  shows "\<exists>es s. run acts \<lparr>tasks = [], next_id = 1, data_file = f\<rparr> = Some (es, s) \<and>
     (\<forall>i \<in> set (assigned es). i < next_id s) \<and>
     (\<forall>t \<in> set (tasks s). task_id t < next_id s)"
proof -
  from empty_store_ok [OF assms] run_total obtain es s
    where r: "run acts \<lparr>tasks = [], next_id = 1, data_file = f\<rparr> = Some (es, s)"
      and ok: "run_ok \<lparr>tasks = [], next_id = 1, data_file = f\<rparr> es s" by blast
  from ok have "\<forall>i \<in> set (assigned es). i < next_id s"
    by (simp add: run_ok_def set_assigned)
  moreover from ok have "\<forall>t \<in> set (tasks s). task_id t < next_id s"
    by (simp add: run_ok_def ids_below_def list_all_iff)
  ultimately show ?thesis using r by blast
qed

lemmas run_eval = add_task_def add_task_web_def delete_task_def
  toggle_complete_def get_task_by_id_def save_to_file_def TodoApp_init_def load_from_file_def
  load_body_def asdict_def Task_fields_def Task_required_def Task_typed_def strip_def isspace_def
  str_int_def str_nat.simps Let_def

theorem ids_increasing_never_reused_witness:
  "map_option fst (run scenario \<lparr>tasks = [], next_id = 1, data_file = None\<rparr>)
     = Some [Assigned 1, Assigned 2, Removed 1, Assigned 3]"
  using ids_increasing_never_reused [of None scenario]
  by (simp add: scenario_def run_eval)

theorem next_id_above_ids_witness:
  "map_option (\<lambda>(es, s). (assigned es, map task_id (tasks s), next_id s))
     (run short_run \<lparr>tasks = [], next_id = 1, data_file = None\<rparr>)
     = Some ([1, 2], [1, 2], 3)"
  using next_id_above_ids [of None short_run]
  by (simp add: short_run_def run_eval)

section \<open>The two programs compared\<close>

text \<open>
  Against C9 as stated: called on the empty store with an empty title, \<^verbatim>\<open>add_task\<close> of
  \<^verbatim>\<open>app.py\<close> refuses and leaves no task and \<open>next_id = 1\<close>, while \<^verbatim>\<open>add_task\<close> of
  \<^verbatim>\<open>todo_app.py\<close> with the same arguments appends a task with the empty title and
  leaves \<open>next_id = 2\<close>.
\<close>

theorem variants_differ_counterexample:
  "map_option (\<lambda>(es, s). (map title (tasks s), next_id s))
     (run [Web blank_create] \<lparr>tasks = [], next_id = 1, data_file = None\<rparr>) = Some ([], 1) \<and>
   map_option (\<lambda>(es, s). (map title (tasks s), next_id s))
     (run [Console (same_call blank_create)] \<lparr>tasks = [], next_id = 1, data_file = None\<rparr>)
     = Some ([[]], 2)"
  by (simp add: blank_create_def add_task_def add_task_web_def save_to_file_def strip_def Let_def)

lemma update_fields_plain:
  "strip a = a \<Longrightarrow> strip b = b \<Longrightarrow> b \<noteq> [] \<Longrightarrow>
   update_fields_web a b c = update_fields (Some a) (Some b) (Some c)"
  by (rule ext) (simp add: update_fields_web_def update_fields_def Let_def)

lemma step_plain: "plain_args c \<Longrightarrow> web_step c s = call_step (same_call c) s"
proof (cases c)
  case (WebCreate ttl desc cat now)
  assume "plain_args c"
  with WebCreate show ?thesis
    by (simp add: add_task_web_def add_task_def Let_def save_to_file_def)
next
  case (WebUpdate tid a b c')
  assume "plain_args c"
  with WebUpdate show ?thesis
    by (simp add: update_task_web_def update_task_def get_task_by_id_def update_fields_plain
        split: option.splits)
next
  case (WebDelete tid)
  then show ?thesis
    by (simp add: delete_task_web_def delete_task_def get_task_by_id_def split: option.splits)
next
  case (WebToggle tid)
  then show ?thesis
    by (simp add: toggle_complete_web_def toggle_complete_def get_task_by_id_def Let_def
        split: option.splits)
qed

text \<open>
  C9, amended. From every store, a sequence of create, update, delete and toggle calls
  whose text arguments are already stripped, whose titles to create are not empty and whose
  descriptions to update are not empty has the same effect in both programs: the runs
  assign and remove the same ids and end in the same tasks, \<open>next_id\<close> and file.
\<close>

theorem variants_agree_on_plain_args:
  assumes "\<forall>c \<in> set cs. plain_args c"
  shows "run (map Web cs) s = run (map (\<lambda>c. Console (same_call c)) cs) s"
  using assms
proof (induction cs arbitrary: s)
  case Nil
  then show ?case by simp
next
  case (Cons c cs)
  then have "web_step c s = call_step (same_call c) s" by (simp add: step_plain)
  moreover from Cons have "\<And>s'. run (map Web cs) s' = run (map (\<lambda>c. Console (same_call c)) cs) s'"
    by simp
  ultimately show ?case by simp
qed

theorem variants_agree_on_plain_args_witness:
  "list_all plain_args plain_calls \<and>
   run (map Web plain_calls) \<lparr>tasks = [], next_id = 1, data_file = None\<rparr>
     = run (map (\<lambda>c. Console (same_call c)) plain_calls)
         \<lparr>tasks = [], next_id = 1, data_file = None\<rparr> \<and>
   map_option fst (run (map Web plain_calls) \<lparr>tasks = [], next_id = 1, data_file = None\<rparr>)
     = Some [Assigned 1, Removed 1]"
proof -
  have h: "\<forall>c \<in> set plain_calls. plain_args c"
    by (simp add: plain_calls_def strip_def isspace_def)
  have e: "map_option fst (run (map Web plain_calls) \<lparr>tasks = [], next_id = 1, data_file = None\<rparr>)
     = Some [Assigned 1, Removed 1]"
    by (simp add: plain_calls_def add_task_web_def update_task_web_def toggle_complete_web_def
        delete_task_web_def update_fields_web_def save_to_file_def strip_def isspace_def
        str_int_def str_nat.simps Let_def)
  from h have "list_all plain_args plain_calls" by (simp add: list_all_iff)
  with e variants_agree_on_plain_args [OF h] show ?thesis by simp
qed

end
